theory Spec2Isabelle
  imports Complex_Main "HOL-Library.AList"
begin

section \<open>The measurements pipeline of \<^verbatim>\<open>measurements_pipeline.py\<close>\<close>

text \<open>
  The pipeline loads a delimited file into a pandas DataFrame, cleans it
  (\<^verbatim>\<open>get_cleaned_dataset\<close>), adds hourly totals and daily maximum flags
  (\<^verbatim>\<open>add_hour_metrics\<close>) and exports it. The stages are embedded as functions on
  an explicit table value. Every \<^verbatim>\<open>try ... except Exception\<close> of the source is
  a function returning a sum: \<open>Inr\<close> the table the body returns, \<open>Inl\<close> the exception
  together with the table the local variable \<^verbatim>\<open>df\<close> is bound to when it is raised,
  which is what the handler returns.

  What is abstracted. Cell values are compared by value, not by dtype (an integer
  stored in a float or object column is the same integer). Integers are mathematical
  integers: the readings and their sums are taken to stay inside the 64-bit range of
  the pandas integer dtype. The two pandas parsers that read text, the numeric parser
  behind \<^verbatim>\<open>to_numeric\<close> and the date parser \<^verbatim>\<open>to_datetime\<close>, are parameters
  of the model, applied element by element; the theorems hold for every choice of them.
  Signals that are not subclasses of \<^verbatim>\<open>Exception\<close> (an interrupt, an exit) are
  not modelled. Log output is modelled for the loader only, where a result below is about it.
\<close>

subsection \<open>Tables\<close>

record datetime =
  year :: nat
  month :: nat
  day :: nat
  hour :: nat
  minute :: nat
  second :: nat
  nanosecond :: nat

text \<open>A numeric value of a pandas column: an integer, a finite float, an infinity or NaN.\<close>

datatype number = Integer int | Floating rat | PosInf | NegInf | NaN

text \<open>A cell of a table or a label of its index. A missing value is \<open>Num NaN\<close>
  (or \<open>NaT\<close> in a date-time column).\<close>

datatype cell = Num number | Str string | Bool bool | Timestamp datetime | NaT

type_synonym series = "cell list"

text \<open>A row is its index label and its cells in column order, each under its column name.\<close>

type_synonym row = "cell \<times> (string \<times> cell) list"

record dataframe =
  index_name :: "string option"
  columns :: "string list"
  rows :: "row list"

datatype error =
  FileNotFoundError | PermissionError | ParserError | EmptyDataError | UnicodeDecodeError
  | KeyError | ValueError | TypeError | AttributeError | IntCastingNaNError

text \<open>Well-formed tables: column names are distinct and every row has one cell per column,
  in column order. The loader's tables are of this kind.\<close>

definition well_formed :: "dataframe \<Rightarrow> bool" where
  "well_formed df \<longleftrightarrow> distinct (columns df) \<and> list_all (\<lambda>r. map fst (snd r) = columns df) (rows df)"

text \<open>\<^verbatim>\<open>DataFrame()\<close>: no columns, no rows.\<close>

definition DataFrame :: dataframe where
  "DataFrame = \<lparr>index_name = None, columns = [], rows = []\<rparr>"

text \<open>\<^verbatim>\<open>df.empty\<close>: an axis of length 0.\<close>

definition df_empty :: "dataframe \<Rightarrow> bool" where
  "df_empty df \<longleftrightarrow> columns df = [] \<or> rows df = []"

text \<open>The cell of a row under a column name. The default is never read on a well-formed
  table at one of its columns; the source checks the columns it reads before it reads them.\<close>

definition cell_of :: "row \<Rightarrow> string \<Rightarrow> cell" where
  "cell_of r c = (case map_of (snd r) c of Some v \<Rightarrow> v | None \<Rightarrow> Num NaN)"

text \<open>\<^verbatim>\<open>df[c]\<close> and \<^verbatim>\<open>df.index\<close>.\<close>

definition column :: "dataframe \<Rightarrow> string \<Rightarrow> series" where
  "column df c = map (\<lambda>r. cell_of r c) (rows df)"

definition index_labels :: "dataframe \<Rightarrow> series" where
  "index_labels df = map fst (rows df)"

definition set_cell :: "string \<Rightarrow> cell \<Rightarrow> row \<Rightarrow> row" where
  "set_cell c v r = (fst r, AList.update c v (snd r))"

text \<open>\<^verbatim>\<open>df[c] = s\<close> and \<^verbatim>\<open>df.loc[:, c] = s\<close> for a series \<open>s\<close> with the table's index:
  an existing column is overwritten in place, a new one is appended.\<close>

definition assign_column :: "string \<Rightarrow> series \<Rightarrow> dataframe \<Rightarrow> dataframe" where
  "assign_column c s df =
     df\<lparr>columns := (if c \<in> set (columns df) then columns df else columns df @ [c]),
        rows := map (\<lambda>(r, v). set_cell c v r) (zip (rows df) s)\<rparr>"

text \<open>\<^verbatim>\<open>df[mask]\<close> for a boolean series.\<close>

definition boolean_index :: "bool list \<Rightarrow> dataframe \<Rightarrow> dataframe" where
  "boolean_index keep df = df\<lparr>rows := map snd (filter fst (zip keep (rows df)))\<rparr>"

text \<open>\<^verbatim>\<open>df.drop(columns=[c], errors='ignore')\<close>.\<close>

definition drop_column :: "string \<Rightarrow> dataframe \<Rightarrow> dataframe" where
  "drop_column c df =
     df\<lparr>columns := filter (\<lambda>n. n \<noteq> c) (columns df),
        rows := map (\<lambda>r. (fst r, AList.delete c (snd r))) (rows df)\<rparr>"

definition is_null :: "cell \<Rightarrow> bool" where
  "is_null v \<longleftrightarrow> v = Num NaN \<or> v = NaT"

text \<open>\<^verbatim>\<open>df.dropna(subset=[c])\<close>.\<close>

definition dropna :: "string \<Rightarrow> dataframe \<Rightarrow> dataframe" where
  "dropna c df = df\<lparr>rows := filter (\<lambda>r. \<not> is_null (cell_of r c)) (rows df)\<rparr>"

text \<open>\<^verbatim>\<open>df.set_index(c)\<close>: the column becomes the index and leaves the columns.\<close>

definition set_index :: "string \<Rightarrow> dataframe \<Rightarrow> dataframe" where
  "set_index c df =
     \<lparr>index_name = Some c,
      columns = filter (\<lambda>n. n \<noteq> c) (columns df),
      rows = map (\<lambda>r. (cell_of r c, AList.delete c (snd r))) (rows df)\<rparr>"

text \<open>\<^verbatim>\<open>index.duplicated(keep='first')\<close>: true at every label seen before.\<close>

fun duplicated_from :: "cell list \<Rightarrow> cell list \<Rightarrow> bool list" where
  "duplicated_from seen [] = []"
| "duplicated_from seen (x # xs) = (x \<in> set seen) # duplicated_from (x # seen) xs"

definition duplicated :: "cell list \<Rightarrow> bool list" where
  "duplicated xs = duplicated_from [] xs"

subsection \<open>The cleaner\<close>

text \<open>\<^verbatim>\<open>to_numeric(s, errors='coerce')\<close> on one value. \<open>pn\<close> is pandas' parser of
  numeric text, with NaN for text that is not a number.\<close>

fun to_numeric :: "(string \<Rightarrow> number) \<Rightarrow> cell \<Rightarrow> number" where
  "to_numeric pn (Num n) = n"
| "to_numeric pn (Str s) = pn s"
| "to_numeric pn (Bool b) = Integer (if b then 1 else 0)"
| "to_numeric pn (Timestamp t) = NaN"
| "to_numeric pn NaT = NaN"

text \<open>\<^verbatim>\<open>.fillna(0)\<close> on a numeric series.\<close>

fun fillna0 :: "number \<Rightarrow> number" where
  "fillna0 NaN = Integer 0"
| "fillna0 n = n"

text \<open>\<^verbatim>\<open>.astype(int)\<close> on one value: a float is truncated towards zero, a value that
  is not finite raises.\<close>

fun astype_int :: "number \<Rightarrow> error + int" where
  "astype_int (Integer i) = Inr i"
| "astype_int (Floating q) = Inr (if q < 0 then \<lceil>q\<rceil> else \<lfloor>q\<rfloor>)"
| "astype_int PosInf = Inl IntCastingNaNError"
| "astype_int NegInf = Inl IntCastingNaNError"
| "astype_int NaN = Inl IntCastingNaNError"

text \<open>The cast of a whole series raises when one value does.\<close>

fun astype_int_series :: "number list \<Rightarrow> error + int list" where
  "astype_int_series [] = Inr []"
| "astype_int_series (n # ns) =
     (case astype_int n of
        Inl e \<Rightarrow> Inl e
      | Inr i \<Rightarrow> (case astype_int_series ns of Inl e \<Rightarrow> Inl e | Inr is \<Rightarrow> Inr (i # is)))"

definition required_columns :: "string list" where
  "required_columns = [''timestamp'', ''grid_purchase'', ''grid_feedin'', ''direct_consumption'']"

text \<open>The loop of task 2, over the columns still to convert. The table is updated in place,
  so a cast that raises leaves the columns converted before it converted.\<close>

fun coerce_columns ::
  "(string \<Rightarrow> number) \<Rightarrow> string list \<Rightarrow> dataframe \<Rightarrow> (error \<times> dataframe) + dataframe" where
  "coerce_columns pn [] df = Inr df"
| "coerce_columns pn (col # cols) df =
     (case astype_int_series (map (\<lambda>v. fillna0 (to_numeric pn v)) (column df col)) of
        Inl e \<Rightarrow> Inl (e, df)
      | Inr is \<Rightarrow> coerce_columns pn cols (assign_column col (map (\<lambda>i. Num (Integer i)) is) df))"

text \<open>\<^verbatim>\<open>to_datetime(s, errors='coerce')\<close> on one value; \<open>pd\<close> is pandas' date parser.\<close>

definition to_datetime :: "(cell \<Rightarrow> datetime option) \<Rightarrow> cell \<Rightarrow> cell" where
  "to_datetime pd v = (case pd v of Some t \<Rightarrow> Timestamp t | None \<Rightarrow> NaT)"

text \<open>\<^verbatim>\<open>.fillna(0)\<close> on a cell of a table.\<close>

definition fillna_cell :: "cell \<Rightarrow> cell" where
  "fillna_cell v = (if is_null v then Num (Integer 0) else v)"

text \<open>\<^verbatim>\<open>df[c] > 0\<close> on one value. The column is \<^verbatim>\<open>direct_consumption\<close> after task 2,
  where every cell is an integer.\<close>

fun gt_zero :: "cell \<Rightarrow> bool" where
  "gt_zero (Num (Integer i)) = (0 < i)"
| "gt_zero (Num (Floating q)) = (0 < q)"
| "gt_zero (Num PosInf) = True"
| "gt_zero (Bool b) = b"
| "gt_zero v = False"

text \<open>Task 1: \<^verbatim>\<open>df = df[df['direct_consumption'] != 'Dev test']\<close>.\<close>

definition remove_dev_test :: "dataframe \<Rightarrow> dataframe" where
  "remove_dev_test df =
     boolean_index (map (\<lambda>v. v \<noteq> Str ''Dev test'') (column df ''direct_consumption'')) df"

text \<open>Task 4: \<^verbatim>\<open>df['timestamp'] = to_datetime(df['timestamp'], errors='coerce')\<close>.\<close>

definition parse_timestamp :: "(cell \<Rightarrow> datetime option) \<Rightarrow> dataframe \<Rightarrow> dataframe" where
  "parse_timestamp pd df =
     assign_column ''timestamp'' (map (to_datetime pd) (column df ''timestamp'')) df"

text \<open>Task 5, second statement: \<^verbatim>\<open>df = df[~df.index.duplicated(keep='first')]\<close>.\<close>

definition drop_duplicated_index :: "dataframe \<Rightarrow> dataframe" where
  "drop_duplicated_index df = boolean_index (map Not (duplicated (index_labels df))) df"

text \<open>Task 6, column by column: \<^verbatim>\<open>df.loc[:, cols] = df[cols].fillna(0).copy()\<close>.\<close>

definition fillna_column :: "string \<Rightarrow> dataframe \<Rightarrow> dataframe" where
  "fillna_column c df = assign_column c (map fillna_cell (column df c)) df"

text \<open>Task 7: \<^verbatim>\<open>df['direct_consumption_flag'] = df['direct_consumption'] > 0\<close>.\<close>

definition add_consumption_flag :: "dataframe \<Rightarrow> dataframe" where
  "add_consumption_flag df =
     assign_column ''direct_consumption_flag''
       (map (\<lambda>v. Bool (gt_zero v)) (column df ''direct_consumption'')) df"

text \<open>The body of the \<^verbatim>\<open>try\<close> of \<^verbatim>\<open>get_cleaned_dataset\<close>. Task 1 rebinds
  \<^verbatim>\<open>df\<close> to the filtered copy and task 2 updates that copy, so a cast that raises in
  task 2 finds \<^verbatim>\<open>df\<close> bound to it. No statement after task 2 raises in this model.\<close>

definition get_cleaned_dataset_try ::
  "(string \<Rightarrow> number) \<Rightarrow> (cell \<Rightarrow> datetime option) \<Rightarrow> dataframe \<Rightarrow> (error \<times> dataframe) + dataframe" where
  "get_cleaned_dataset_try pn pd df =
     (if df_empty df then Inr df
      else if \<not> list_all (\<lambda>col. col \<in> set (columns df)) required_columns then Inr DataFrame
      else
       (case coerce_columns pn [''grid_purchase'', ''grid_feedin'', ''direct_consumption'']
               (remove_dev_test df) of
          Inl raised \<Rightarrow> Inl raised
        | Inr df2 \<Rightarrow>
            Inr (add_consumption_flag
                  (fillna_column ''grid_feedin''
                    (fillna_column ''grid_purchase''
                      (drop_duplicated_index
                        (set_index ''timestamp''
                          (dropna ''timestamp''
                            (parse_timestamp pd
                              (drop_column ''date'' df2))))))))))"

text \<open>\<^verbatim>\<open>get_cleaned_dataset\<close>: the handler logs and returns \<^verbatim>\<open>df\<close> as bound at the raise.\<close>

definition get_cleaned_dataset ::
  "(string \<Rightarrow> number) \<Rightarrow> (cell \<Rightarrow> datetime option) \<Rightarrow> dataframe \<Rightarrow> dataframe" where
  "get_cleaned_dataset pn pd df =
     (case get_cleaned_dataset_try pn pd df of Inr out \<Rightarrow> out | Inl (e, df') \<Rightarrow> df')"

subsection \<open>Parsers for the worked examples\<close>

text \<open>Two instances of the parser parameters, used where a table is written out in full.
  They read the fragment of pandas' input language the examples need: decimal integer
  literals, and timestamps written \<^verbatim>\<open>YYYY-MM-DDTHH:MM:SS\<close>.\<close>

definition digit_of :: "char \<Rightarrow> nat option" where
  "digit_of ch = (let n = of_char ch :: nat in if 48 \<le> n \<and> n \<le> 57 then Some (n - 48) else None)"

fun digits_from :: "nat \<Rightarrow> string \<Rightarrow> nat option" where
  "digits_from acc [] = Some acc"
| "digits_from acc (ch # s) =
     (case digit_of ch of None \<Rightarrow> None | Some d \<Rightarrow> digits_from (10 * acc + d) s)"

definition natural_of :: "string \<Rightarrow> nat option" where
  "natural_of s = (if s = [] then None else digits_from 0 s)"

fun integer_literal :: "string \<Rightarrow> number" where
  "integer_literal [] = NaN"
| "integer_literal (ch # s) =
     (if ch = CHR ''-'' then (case natural_of s of None \<Rightarrow> NaN | Some n \<Rightarrow> Integer (- int n))
      else (case natural_of (ch # s) of None \<Rightarrow> NaN | Some n \<Rightarrow> Integer (int n)))"

definition iso_fields :: "string \<Rightarrow> datetime option" where
  "iso_fields s =
     (if length s = 19 \<and> s ! 4 = CHR ''-'' \<and> s ! 7 = CHR ''-'' \<and> s ! 10 = CHR ''T''
         \<and> s ! 13 = CHR '':'' \<and> s ! 16 = CHR '':''
      then
        (case (natural_of (take 4 s), natural_of (take 2 (drop 5 s)), natural_of (take 2 (drop 8 s)),
               natural_of (take 2 (drop 11 s)), natural_of (take 2 (drop 14 s)),
               natural_of (take 2 (drop 17 s))) of
           (Some y, Some mo, Some d, Some h, Some mi, Some sec) \<Rightarrow>
             if 1 \<le> mo \<and> mo \<le> 12 \<and> 1 \<le> d \<and> d \<le> 31 \<and> h < 24 \<and> mi < 60 \<and> sec < 60
             then Some \<lparr>year = y, month = mo, day = d, hour = h, minute = mi, second = sec,
                        nanosecond = 0\<rparr>
             else None
         | _ \<Rightarrow> None)
      else None)"

fun iso_datetime :: "cell \<Rightarrow> datetime option" where
  "iso_datetime (Str s) = iso_fields s"
| "iso_datetime (Timestamp t) = Some t"
| "iso_datetime v = None"

subsection \<open>The aggregator\<close>

fun is_datetime :: "cell \<Rightarrow> bool" where
  "is_datetime (Timestamp t) = True"
| "is_datetime NaT = True"
| "is_datetime v = False"

text \<open>A label that is a date-time value, not a missing one: the labels of a cleaned table.\<close>

fun is_timestamp :: "cell \<Rightarrow> bool" where
  "is_timestamp (Timestamp t) = True"
| "is_timestamp v = False"

fun hour_of :: "cell \<Rightarrow> cell" where
  "hour_of (Timestamp t) = Num (Integer (int (hour t)))"
| "hour_of v = Num NaN"

text \<open>\<^verbatim>\<open>df.index.hour\<close>: only an index of date-times has the attribute.\<close>

definition index_hour :: "dataframe \<Rightarrow> error + series" where
  "index_hour df =
     (if list_all is_datetime (index_labels df) then Inr (map hour_of (index_labels df))
      else Inl AttributeError)"

fun is_integer :: "cell \<Rightarrow> bool" where
  "is_integer (Num (Integer i)) = True"
| "is_integer v = False"

fun int_value :: "cell \<Rightarrow> int" where
  "int_value (Num (Integer i)) = i"
| "int_value v = 0"

fun int_key :: "cell \<Rightarrow> int option" where
  "int_key (Num (Integer i)) = Some i"
| "int_key v = None"

text \<open>Sums and maxima are modelled on integer cells, which is what the cleaner leaves in
  the metric columns. A metric column with any other cell is outside the model: the
  aggregation then stops with \<open>TypeError\<close>, and no theorem below rests on that branch.\<close>

definition integer_columns :: "string list \<Rightarrow> dataframe \<Rightarrow> bool" where
  "integer_columns cols df \<longleftrightarrow> list_all (\<lambda>c. list_all is_integer (column df c)) cols"

text \<open>\<^verbatim>\<open>df.groupby(key)[cols].sum()\<close> for a key column of integers and missing values:
  one row per key present, in ascending order; rows with a missing key are in no group.\<close>

definition groupby_sum :: "string \<Rightarrow> string list \<Rightarrow> dataframe \<Rightarrow> error + dataframe" where
  "groupby_sum key cols df =
     (if \<not> list_all (\<lambda>c. c \<in> set (columns df)) (key # cols) then Inl KeyError
      else if \<not> integer_columns cols df then Inl TypeError
      else Inr \<lparr>index_name = Some key, columns = cols,
                rows = map (\<lambda>k. (Num (Integer k),
                                  map (\<lambda>c. (c, Num (Integer (sum_list (map (\<lambda>r. int_value (cell_of r c))
                                         (filter (\<lambda>r. cell_of r key = Num (Integer k)) (rows df))))))) cols))
                         (sort (remdups (List.map_filter int_key (column df key))))\<rparr>)"

text \<open>\<^verbatim>\<open>t.columns = [f(col) for col in t.columns]\<close>.\<close>

definition rename_columns :: "(string \<Rightarrow> string) \<Rightarrow> dataframe \<Rightarrow> dataframe" where
  "rename_columns f df =
     df\<lparr>columns := map f (columns df),
        rows := map (\<lambda>r. (fst r, map (\<lambda>p. (f (fst p), snd p)) (snd r))) (rows df)\<rparr>"

text \<open>\<^verbatim>\<open>df.join(other, on=key, how='left')\<close>: raises when a column name is on both sides;
  otherwise every row of \<open>df\<close> stays, followed by the cells of the row of \<open>other\<close> labelled
  with its key, or by missing values when there is none.\<close>

definition join_on :: "string \<Rightarrow> dataframe \<Rightarrow> dataframe \<Rightarrow> error + dataframe" where
  "join_on key other df =
     (if key \<notin> set (columns df) then Inl KeyError
      else if list_ex (\<lambda>c. c \<in> set (columns df)) (columns other) then Inl ValueError
      else Inr (df\<lparr>columns := columns df @ columns other,
                   rows := map (\<lambda>r. (fst r, snd r @
                             (case map_of (rows other) (cell_of r key) of
                                Some cs \<Rightarrow> cs
                              | None \<Rightarrow> map (\<lambda>c. (c, Num NaN)) (columns other)))) (rows df)\<rparr>))"

text \<open>\<^verbatim>\<open>index.floor('D')\<close> on one label.\<close>

fun floor_day :: "cell \<Rightarrow> datetime option" where
  "floor_day (Timestamp t) = Some (t\<lparr>hour := 0, minute := 0, second := 0, nanosecond := 0\<rparr>)"
| "floor_day v = None"

text \<open>\<^verbatim>\<open>x.max()\<close> of a group.\<close>

fun series_max :: "int list \<Rightarrow> int option" where
  "series_max [] = None"
| "series_max (x # xs) = Some (fold max xs x)"

text \<open>\<^verbatim>\<open>df.groupby(df.index.floor('D'))[c].transform(lambda x: x == x.max())\<close>: each row
  is compared with the maximum over the rows of its day; a row without a day gets a
  missing value.\<close>

definition transform_is_max :: "string \<Rightarrow> dataframe \<Rightarrow> error + series" where
  "transform_is_max c df =
     (if c \<notin> set (columns df) then Inl KeyError
      else if \<not> integer_columns [c] df then Inl TypeError
      else Inr (map (\<lambda>r. if floor_day (fst r) = None then Num NaN
                          else Bool (Some (int_value (cell_of r c)) =
                                 series_max (map (\<lambda>q. int_value (cell_of q c))
                                   (filter (\<lambda>q. floor_day (fst q) = floor_day (fst r)) (rows df)))))
                 (rows df)))"

text \<open>The two statements that build and join the hourly totals, on the table that has
  its \<^verbatim>\<open>hour\<close> column.\<close>

definition join_hourly_totals :: "dataframe \<Rightarrow> error + dataframe" where
  "join_hourly_totals df =
     (case groupby_sum ''hour'' [''grid_purchase'', ''grid_feedin''] df of
        Inl e \<Rightarrow> Inl e
      | Inr totals \<Rightarrow> join_on ''hour'' (rename_columns (\<lambda>col. col @ ''_total'') totals) df)"

text \<open>\<^verbatim>\<open>df[flag] = df.groupby(df.index.floor('D'))[c].transform(lambda x: x == x.max())\<close>.\<close>

definition flag_day_max :: "string \<Rightarrow> string \<Rightarrow> dataframe \<Rightarrow> error + dataframe" where
  "flag_day_max flag c df =
     (case transform_is_max c df of
        Inl e \<Rightarrow> Inl e
      | Inr flags \<Rightarrow> Inr (assign_column flag flags df))"

text \<open>The body of the \<^verbatim>\<open>try\<close> of \<^verbatim>\<open>add_hour_metrics\<close>, in three parts: up to the
  assignment of the \<^verbatim>\<open>hour\<close> column, from there to the join, and the two flags. The
  assignment of \<^verbatim>\<open>hour\<close> changes the table the caller passed, so from there on an
  exception finds \<^verbatim>\<open>df\<close> with that column; after the join \<^verbatim>\<open>df\<close> is the joined
  table without it.\<close>

definition add_day_flags :: "dataframe \<Rightarrow> (error \<times> dataframe) + dataframe" where
  "add_day_flags df =
     (case flag_day_max ''max_grid_purchase_hour'' ''grid_purchase'' df of
        Inl e \<Rightarrow> Inl (e, df)
      | Inr df' \<Rightarrow>
         (case flag_day_max ''max_grid_feedin_hour'' ''grid_feedin'' df' of
            Inl e \<Rightarrow> Inl (e, df')
          | Inr df'' \<Rightarrow> Inr df''))"

definition add_hour_totals :: "dataframe \<Rightarrow> (error \<times> dataframe) + dataframe" where
  "add_hour_totals df =
     (case join_hourly_totals df of
        Inl e \<Rightarrow> Inl (e, df)
      | Inr df' \<Rightarrow> add_day_flags (drop_column ''hour'' df'))"

definition add_hour_metrics_try :: "dataframe \<Rightarrow> (error \<times> dataframe) + dataframe" where
  "add_hour_metrics_try df =
     (if df_empty df then Inr df
      else
       (case index_hour df of
          Inl e \<Rightarrow> Inl (e, df)
        | Inr hours \<Rightarrow> add_hour_totals (assign_column ''hour'' hours df)))"

definition add_hour_metrics :: "dataframe \<Rightarrow> dataframe" where
  "add_hour_metrics df =
     (case add_hour_metrics_try df of Inr out \<Rightarrow> out | Inl (e, df') \<Rightarrow> df')"

subsection \<open>The loader\<close>

datatype level = DEBUG | INFO | WARNING | ERROR | CRITICAL

datatype log_arg = ArgStr string | ArgNat nat

text \<open>One call of the logger: its level, its format string and arguments, and whether the
  traceback of the exception being handled is attached (\<^verbatim>\<open>logger.exception\<close>).\<close>

record log_record =
  levelname :: level
  msg :: string
  args :: "log_arg list"
  exc_info :: bool

text \<open>\<^verbatim>\<open>load_dataset\<close>. \<open>read_csv\<close> stands for pandas' reader together with the file
  system: it returns the table or raises. The result is the returned table and the log
  records written.\<close>

definition load_dataset ::
  "(string \<Rightarrow> string \<Rightarrow> error + dataframe) \<Rightarrow> string \<Rightarrow> string \<Rightarrow> dataframe \<times> log_record list" where
  "load_dataset read_csv filename delimiter =
     (case read_csv filename delimiter of
        Inr df \<Rightarrow>
          (df, [\<lparr>levelname = INFO, msg = ''Loaded dataset with %s rows and %s columns.'',
                 args = [ArgNat (length (rows df)), ArgNat (length (columns df))],
                 exc_info = False\<rparr>])
      | Inl FileNotFoundError \<Rightarrow>
          (DataFrame, [\<lparr>levelname = ERROR, msg = ''File not found: %s'',
                        args = [ArgStr filename], exc_info = False\<rparr>])
      | Inl e \<Rightarrow>
          (DataFrame, [\<lparr>levelname = ERROR, msg = ''An error occurred while loading dataset'',
                        args = [], exc_info = True\<rparr>]))"

subsection \<open>Notions used in the proofs\<close>

text \<open>The rows of a list that are the first with their key, after the keys in \<open>seen\<close>;
  the integer a metric cell is cast to; the cleaner's effect on one row; and the rows of a
  raw table that the cleaner keeps: not Dev test rows, with a timestamp that parses, the
  first of their timestamp.\<close>

fun keep_first :: "('a \<Rightarrow> cell) \<Rightarrow> cell list \<Rightarrow> 'a list \<Rightarrow> 'a list" where
  "keep_first k seen [] = []"
| "keep_first k seen (x # xs) =
     (if k x \<in> set seen then keep_first k (k x # seen) xs
      else x # keep_first k (k x # seen) xs)"

definition cast :: "(string \<Rightarrow> number) \<Rightarrow> cell \<Rightarrow> int" where
  "cast pn v = (case astype_int (fillna0 (to_numeric pn v)) of Inr i \<Rightarrow> i | Inl e \<Rightarrow> 0)"

definition coerce_cell :: "(string \<Rightarrow> number) \<Rightarrow> string \<Rightarrow> row \<Rightarrow> row" where
  "coerce_cell pn c r = set_cell c (Num (Integer (cast pn (cell_of r c)))) r"

definition clean_row :: "(string \<Rightarrow> number) \<Rightarrow> (cell \<Rightarrow> datetime option) \<Rightarrow> row \<Rightarrow> row" where
  "clean_row pn pd r =
     (let r2 = coerce_cell pn ''direct_consumption''
                 (coerce_cell pn ''grid_feedin'' (coerce_cell pn ''grid_purchase'' r));
          r3 = (fst r2, AList.delete ''date'' (snd r2));
          r4 = set_cell ''timestamp'' (to_datetime pd (cell_of r3 ''timestamp'')) r3;
          r5 = (cell_of r4 ''timestamp'', AList.delete ''timestamp'' (snd r4));
          r7 = set_cell ''grid_purchase'' (fillna_cell (cell_of r5 ''grid_purchase'')) r5;
          r8 = set_cell ''grid_feedin'' (fillna_cell (cell_of r7 ''grid_feedin'')) r7
      in set_cell ''direct_consumption_flag'' (Bool (gt_zero (cell_of r8 ''direct_consumption''))) r8)"

definition survivors :: "(cell \<Rightarrow> datetime option) \<Rightarrow> dataframe \<Rightarrow> row list" where
  "survivors pd df =
     keep_first (\<lambda>r. to_datetime pd (cell_of r ''timestamp'')) []
       (filter (\<lambda>r. pd (cell_of r ''timestamp'') \<noteq> None)
          (filter (\<lambda>r. cell_of r ''direct_consumption'' \<noteq> Str ''Dev test'') (rows df)))"






subsection \<open>Worked tables\<close>

text \<open>A raw row as the loader produces it (position as label, the four required columns),
  and a raw table of such rows.\<close>

definition raw_row :: "int \<Rightarrow> cell \<Rightarrow> cell \<Rightarrow> cell \<Rightarrow> cell \<Rightarrow> row" where
  "raw_row i ts gp gf dc =
     (Num (Integer i),
      [(''timestamp'', ts), (''grid_purchase'', gp), (''grid_feedin'', gf),
       (''direct_consumption'', dc)])"

definition raw_table :: "row list \<Rightarrow> dataframe" where
  "raw_table rs = \<lparr>index_name = None, columns = required_columns, rows = rs\<rparr>"

text \<open>The hour \<open>h\<close> of day \<open>d\<close> of January 2024.\<close>

definition at_hour :: "nat \<Rightarrow> nat \<Rightarrow> datetime" where
  "at_hour d h =
     \<lparr>year = 2024, month = 1, day = d, hour = h, minute = 0, second = 0, nanosecond = 0\<rparr>"

text \<open>The raw rows of the end-to-end example of the specification.\<close>

definition c1_raw :: dataframe where
  "c1_raw = raw_table
     [raw_row 0 (Str ''2024-01-01T00:00:00'') (Num (Integer 100)) (Num (Integer 20)) (Str ''Dev test''),
      raw_row 1 (Str ''2024-01-01T01:00:00'') (Str ''abc'') (Num (Integer 30)) (Num (Integer 10)),
      raw_row 2 (Str ''2024-01-01T01:00:00'') (Num (Integer 50)) (Num (Integer 30)) (Num (Integer 10))]"







text \<open>A raw table with a fifth column: one named as the cleaner's flag, one named \<^verbatim>\<open>site\<close>.\<close>

definition with_column :: "string \<Rightarrow> cell \<Rightarrow> dataframe" where
  "with_column name v =
     \<lparr>index_name = None, columns = required_columns @ [name],
      rows = [(Num (Integer 0),
               [(''timestamp'', Str ''2024-01-01T01:00:00''), (''grid_purchase'', Num (Integer 50)),
                (''grid_feedin'', Num (Integer 30)), (''direct_consumption'', Num (Integer 10)),
                (name, v)])]\<rparr>"

definition with_column_cleaned :: "string \<Rightarrow> cell \<Rightarrow> dataframe" where
  "with_column_cleaned name v =
     \<lparr>index_name = Some ''timestamp'',
      columns = [''grid_purchase'', ''grid_feedin'', ''direct_consumption'', name,
                 ''direct_consumption_flag''],
      rows = [(Timestamp (at_hour 1 1),
               [(''grid_purchase'', Num (Integer 50)), (''grid_feedin'', Num (Integer 30)),
                (''direct_consumption'', Num (Integer 10)), (name, v),
                (''direct_consumption_flag'', Bool True)])]\<rparr>"

text \<open>One clean reading as a raw table, and the cleaner's output for it.\<close>

definition c2_raw :: dataframe where
  "c2_raw = raw_table
     [raw_row 0 (Str ''2024-01-01T01:00:00'') (Num (Integer 50)) (Num (Integer 30)) (Num (Integer 10))]"

definition c2_cleaned :: dataframe where
  "c2_cleaned =
     \<lparr>index_name = Some ''timestamp'',
      columns = [''grid_purchase'', ''grid_feedin'', ''direct_consumption'',
                 ''direct_consumption_flag''],
      rows = [(Timestamp (at_hour 1 1),
               [(''grid_purchase'', Num (Integer 50)), (''grid_feedin'', Num (Integer 30)),
                (''direct_consumption'', Num (Integer 10)),
                (''direct_consumption_flag'', Bool True)])]\<rparr>"

text \<open>A file with a Dev test row and an infinite grid purchase, as \<^verbatim>\<open>read_csv\<close> reads it,
  and the same table without the Dev test row.\<close>

definition c3_raw :: dataframe where
  "c3_raw = raw_table
     [raw_row 0 (Str ''2024-01-01T00:00:00'') (Num (Integer 100)) (Num (Integer 20)) (Str ''Dev test''),
      raw_row 1 (Str ''2024-01-01T01:00:00'') (Num PosInf) (Num (Integer 30)) (Str ''10'')]"

definition c3_filtered :: dataframe where
  "c3_filtered = raw_table
     [raw_row 1 (Str ''2024-01-01T01:00:00'') (Num PosInf) (Num (Integer 30)) (Str ''10'')]"

text \<open>A table that has its hourly totals already, and the same table with an
  \<^verbatim>\<open>hour\<close> column.\<close>

definition c3_enriched :: dataframe where
  "c3_enriched =
     \<lparr>index_name = Some ''timestamp'',
      columns = [''grid_purchase'', ''grid_feedin'', ''direct_consumption'',
                 ''direct_consumption_flag'', ''grid_purchase_total'', ''grid_feedin_total'',
                 ''max_grid_purchase_hour'', ''max_grid_feedin_hour''],
      rows = [(Timestamp (at_hour 1 1),
               [(''grid_purchase'', Num (Integer 50)), (''grid_feedin'', Num (Integer 30)),
                (''direct_consumption'', Num (Integer 10)),
                (''direct_consumption_flag'', Bool True),
                (''grid_purchase_total'', Num (Integer 50)),
                (''grid_feedin_total'', Num (Integer 30)),
                (''max_grid_purchase_hour'', Bool True),
                (''max_grid_feedin_hour'', Bool True)])]\<rparr>"

definition c3_enriched_with_hour :: dataframe where
  "c3_enriched_with_hour =
     \<lparr>index_name = Some ''timestamp'',
      columns = [''grid_purchase'', ''grid_feedin'', ''direct_consumption'',
                 ''direct_consumption_flag'', ''grid_purchase_total'', ''grid_feedin_total'',
                 ''max_grid_purchase_hour'', ''max_grid_feedin_hour'', ''hour''],
      rows = [(Timestamp (at_hour 1 1),
               [(''grid_purchase'', Num (Integer 50)), (''grid_feedin'', Num (Integer 30)),
                (''direct_consumption'', Num (Integer 10)),
                (''direct_consumption_flag'', Bool True),
                (''grid_purchase_total'', Num (Integer 50)),
                (''grid_feedin_total'', Num (Integer 30)),
                (''max_grid_purchase_hour'', Bool True),
                (''max_grid_feedin_hour'', Bool True),
                (''hour'', Num (Integer 1))])]\<rparr>"



section \<open>Results\<close>

subsection \<open>Rows, masks and first occurrences\<close>

lemma cell_of_set_cell: "cell_of (set_cell c v r) c' = (if c' = c then v else cell_of r c')"
  by (simp add: cell_of_def set_cell_def update_conv')

lemma cell_of_delete: "cell_of (l, AList.delete c (snd r)) c' = (if c' = c then Num NaN else cell_of r c')"
  by (simp add: cell_of_def delete_conv')

lemma fst_set_cell: "fst (set_cell c v r) = fst r"
  by (simp add: set_cell_def)

lemma map_zip_map: "map (\<lambda>(r, v). f r v) (zip xs (map g xs)) = map (\<lambda>r. f r (g r)) xs"
  by (induction xs) auto

lemma rows_assign_column:
  "rows (assign_column c (map g (column df c0)) df) = map (\<lambda>r. set_cell c (g (cell_of r c0)) r) (rows df)"
  by (simp add: assign_column_def column_def map_zip_map[of _ _ "\<lambda>r. g (cell_of r c0)"] comp_def)

lemma filter_by_mask: "map snd (filter fst (zip (map p xs) xs)) = filter p xs"
  by (induction xs) auto

lemma rows_boolean_index_column:
  "rows (boolean_index (map p (column df c)) df) = filter (\<lambda>r. p (cell_of r c)) (rows df)"
  using filter_by_mask[of "\<lambda>r. p (cell_of r c)" "rows df"]
  by (simp add: boolean_index_def column_def comp_def)

lemma keep_first_mask:
  "map snd (filter fst (zip (map Not (duplicated_from seen (map k xs))) xs)) = keep_first k seen xs"
  by (induction xs arbitrary: seen) auto

lemma keep_first_map: "keep_first k seen (map f xs) = map f (keep_first (\<lambda>x. k (f x)) seen xs)"
  by (induction xs arbitrary: seen) auto

lemma keep_first_cong:
  "(\<And>x. x \<in> set xs \<Longrightarrow> k x = k' x) \<Longrightarrow> keep_first k seen xs = keep_first k' seen xs"
  by (induction xs arbitrary: seen) auto

lemma filter_keep_first:
  "filter (\<lambda>x. k x = a) (keep_first k seen xs) =
     (if a \<in> set seen then [] else (case find (\<lambda>x. k x = a) xs of None \<Rightarrow> [] | Some x \<Rightarrow> [x]))"
proof (induction xs arbitrary: seen)
  case Nil
  then show ?case by simp
next
  case (Cons x xs)
  then show ?case by (auto split: option.splits)
qed

lemma set_keep_first: "set (keep_first k seen xs) \<subseteq> set xs"
  by (induction xs arbitrary: seen) auto

lemma find_filter: "find P (filter Q xs) = find (\<lambda>x. Q x \<and> P x) xs"
  by (induction xs) auto

lemma astype_int_series_Inr:
  "astype_int_series (map (\<lambda>v. fillna0 (to_numeric pn v)) vs) = Inr is \<Longrightarrow>
     is = map (cast pn) vs \<and> (\<forall>v \<in> set vs. astype_int (fillna0 (to_numeric pn v)) = Inr (cast pn v))"
proof (induction vs arbitrary: "is")
  case Nil
  then show ?case by simp
next
  case (Cons v vs)
  from Cons.prems obtain i js where
    i: "astype_int (fillna0 (to_numeric pn v)) = Inr i" and
    js: "astype_int_series (map (\<lambda>v. fillna0 (to_numeric pn v)) vs) = Inr js" and
    eq: "is = i # js"
    by (auto split: sum.splits)
  from i have "cast pn v = i" by (simp add: cast_def)
  with Cons.IH[OF js] i eq show ?case by simp
qed

lemma df_empty_DataFrame: "df_empty DataFrame"
  by (simp add: df_empty_def DataFrame_def)

lemma clean_empty: "df_empty df \<Longrightarrow> get_cleaned_dataset pn pd df = df"
  by (simp add: get_cleaned_dataset_def get_cleaned_dataset_try_def)

subsection \<open>What a successful run of the cleaner returns\<close>

lemma coerce_step:
  assumes "astype_int_series (map (\<lambda>v. fillna0 (to_numeric pn v)) (column df c)) = Inr is"
  shows "rows (assign_column c (map (\<lambda>i. Num (Integer i)) is) df) = map (coerce_cell pn c) (rows df)"
    and "columns (assign_column c (map (\<lambda>i. Num (Integer i)) is) df) =
           (if c \<in> set (columns df) then columns df else columns df @ [c])"
    and "index_name (assign_column c (map (\<lambda>i. Num (Integer i)) is) df) = index_name df"
    and "\<forall>r \<in> set (rows df). astype_int (fillna0 (to_numeric pn (cell_of r c))) = Inr (cast pn (cell_of r c))"
proof -
  from astype_int_series_Inr[OF assms]
  have iseq: "is = map (cast pn) (column df c)"
    and ok: "\<forall>v \<in> set (column df c). astype_int (fillna0 (to_numeric pn v)) = Inr (cast pn v)"
    by simp_all
  have "map (\<lambda>i. Num (Integer i)) is = map (\<lambda>v. Num (Integer (cast pn v))) (column df c)"
    by (simp add: iseq)
  then show "rows (assign_column c (map (\<lambda>i. Num (Integer i)) is) df) = map (coerce_cell pn c) (rows df)"
    using rows_assign_column[of c "\<lambda>v. Num (Integer (cast pn v))" df c]
    by (simp add: coerce_cell_def)
  show "columns (assign_column c (map (\<lambda>i. Num (Integer i)) is) df) =
           (if c \<in> set (columns df) then columns df else columns df @ [c])"
    by (simp add: assign_column_def)
  show "index_name (assign_column c (map (\<lambda>i. Num (Integer i)) is) df) = index_name df"
    by (simp add: assign_column_def)
  from ok show "\<forall>r \<in> set (rows df). astype_int (fillna0 (to_numeric pn (cell_of r c))) = Inr (cast pn (cell_of r c))"
    by (simp add: column_def)
qed

lemma cell_of_coerce_cell:
  "cell_of (coerce_cell pn c r) c' = (if c' = c then Num (Integer (cast pn (cell_of r c))) else cell_of r c')"
  by (simp add: coerce_cell_def cell_of_set_cell)

lemma coerce_columns_three:
  assumes "coerce_columns pn [''grid_purchase'', ''grid_feedin'', ''direct_consumption''] df = Inr out"
    and "list_all (\<lambda>col. col \<in> set (columns df)) required_columns"
  shows "rows out = map (\<lambda>r. coerce_cell pn ''direct_consumption''
                 (coerce_cell pn ''grid_feedin'' (coerce_cell pn ''grid_purchase'' r))) (rows df)"
    and "columns out = columns df"
    and "index_name out = index_name df"
    and "\<forall>r \<in> set (rows df). \<forall>c \<in> {''grid_purchase'', ''grid_feedin'', ''direct_consumption''}.
           astype_int (fillna0 (to_numeric pn (cell_of r c))) = Inr (cast pn (cell_of r c))"
proof -
  from assms(1) obtain is1 where
    s1: "astype_int_series (map (\<lambda>v. fillna0 (to_numeric pn v)) (column df ''grid_purchase'')) = Inr is1"
    by (auto split: sum.splits)
  define d1 where "d1 = assign_column ''grid_purchase'' (map (\<lambda>i. Num (Integer i)) is1) df"
  from assms(1) s1 obtain is2 where
    s2: "astype_int_series (map (\<lambda>v. fillna0 (to_numeric pn v)) (column d1 ''grid_feedin'')) = Inr is2"
    by (auto simp: d1_def split: sum.splits)
  define d2 where "d2 = assign_column ''grid_feedin'' (map (\<lambda>i. Num (Integer i)) is2) d1"
  from assms(1) s1 s2 obtain is3 where
    s3: "astype_int_series (map (\<lambda>v. fillna0 (to_numeric pn v)) (column d2 ''direct_consumption'')) = Inr is3"
    and out: "out = assign_column ''direct_consumption'' (map (\<lambda>i. Num (Integer i)) is3) d2"
    by (auto simp: d1_def d2_def split: sum.splits)
  note c1 = coerce_step[OF s1, folded d1_def]
  note c2 = coerce_step[OF s2, folded d2_def]
  note c3 = coerce_step[OF s3, folded out]
  from assms(2) have cols: "''grid_purchase'' \<in> set (columns df)" "''grid_feedin'' \<in> set (columns df)"
    "''direct_consumption'' \<in> set (columns df)"
    by (simp_all add: required_columns_def)
  show "rows out = map (\<lambda>r. coerce_cell pn ''direct_consumption''
                 (coerce_cell pn ''grid_feedin'' (coerce_cell pn ''grid_purchase'' r))) (rows df)"
    by (simp add: c1(1) c2(1) c3(1) comp_def)
  show "columns out = columns df"
    using cols by (simp add: c1(2) c2(2) c3(2))
  show "index_name out = index_name df"
    by (simp add: c1(3) c2(3) c3(3))
  show "\<forall>r \<in> set (rows df). \<forall>c \<in> {''grid_purchase'', ''grid_feedin'', ''direct_consumption''}.
           astype_int (fillna0 (to_numeric pn (cell_of r c))) = Inr (cast pn (cell_of r c))"
    using c1(4) c2(4) c3(4)
    by (simp add: c1(1) c2(1) cell_of_coerce_cell)
qed

lemma is_null_to_datetime: "is_null (to_datetime pd v) \<longleftrightarrow> pd v = None"
  by (simp add: is_null_def to_datetime_def split: option.splits)

lemma clean_success:
  assumes ok: "get_cleaned_dataset_try pn pd df = Inr out"
    and ne: "\<not> df_empty df"
    and req: "list_all (\<lambda>col. col \<in> set (columns df)) required_columns"
  shows "rows out = map (clean_row pn pd) (survivors pd df)"
    and "columns out =
           (let cs = filter (\<lambda>n. n \<noteq> ''timestamp'') (filter (\<lambda>n. n \<noteq> ''date'') (columns df))
            in if ''direct_consumption_flag'' \<in> set cs then cs else cs @ [''direct_consumption_flag''])"
    and "index_name out = Some ''timestamp''"
    and "\<forall>r \<in> set (rows df). cell_of r ''direct_consumption'' \<noteq> Str ''Dev test'' \<longrightarrow>
           (\<forall>c \<in> {''grid_purchase'', ''grid_feedin'', ''direct_consumption''}.
              astype_int (fillna0 (to_numeric pn (cell_of r c))) = Inr (cast pn (cell_of r c)))"
proof -
  define df1 where "df1 = remove_dev_test df"
  have r1: "rows df1 = filter (\<lambda>r. cell_of r ''direct_consumption'' \<noteq> Str ''Dev test'') (rows df)"
    unfolding df1_def remove_dev_test_def by (rule rows_boolean_index_column)
  have c1: "columns df1 = columns df" and n1: "index_name df1 = index_name df"
    by (simp_all add: df1_def remove_dev_test_def boolean_index_def)
  from ok ne req obtain df2 where
    co: "coerce_columns pn [''grid_purchase'', ''grid_feedin'', ''direct_consumption''] df1 = Inr df2"
    and out: "out = add_consumption_flag (fillna_column ''grid_feedin''
                    (fillna_column ''grid_purchase'' (drop_duplicated_index
                        (set_index ''timestamp'' (dropna ''timestamp''
                            (parse_timestamp pd (drop_column ''date'' df2)))))))"
    unfolding get_cleaned_dataset_try_def df1_def
    by (auto split: sum.splits)
  from req c1 have req1: "list_all (\<lambda>col. col \<in> set (columns df1)) required_columns" by simp
  note k = coerce_columns_three[OF co req1]
  define df4 where "df4 = parse_timestamp pd (drop_column ''date'' df2)"
  define df5 where "df5 = set_index ''timestamp'' (dropna ''timestamp'' df4)"
  define df6 where "df6 = drop_duplicated_index df5"
  define h1 where "h1 = (\<lambda>r. let r2 = coerce_cell pn ''direct_consumption''
                 (coerce_cell pn ''grid_feedin'' (coerce_cell pn ''grid_purchase'' r));
          r3 = (fst r2, AList.delete ''date'' (snd r2))
       in set_cell ''timestamp'' (to_datetime pd (cell_of r3 ''timestamp'')) r3)"
  define h2 where "h2 = (\<lambda>r4::row. (cell_of r4 ''timestamp'', AList.delete ''timestamp'' (snd r4)))"
  define h3 where "h3 = (\<lambda>r5. let
          r7 = set_cell ''grid_purchase'' (fillna_cell (cell_of r5 ''grid_purchase'')) r5;
          r8 = set_cell ''grid_feedin'' (fillna_cell (cell_of r7 ''grid_feedin'')) r7
      in set_cell ''direct_consumption_flag'' (Bool (gt_zero (cell_of r8 ''direct_consumption''))) r8)"
  have r4: "rows df4 = map h1 (rows df1)"
    unfolding df4_def parse_timestamp_def rows_assign_column
    by (simp add: drop_column_def k(1) h1_def Let_def comp_def)
  have ts1: "cell_of (h1 r) ''timestamp'' = to_datetime pd (cell_of r ''timestamp'')" for r
    by (simp add: h1_def Let_def cell_of_set_cell cell_of_delete cell_of_coerce_cell)
  have r5: "rows df5 = map (\<lambda>r. h2 (h1 r)) (filter (\<lambda>r. pd (cell_of r ''timestamp'') \<noteq> None) (rows df1))"
    by (simp add: df5_def set_index_def dropna_def r4 filter_map comp_def ts1 is_null_to_datetime h2_def)
  have r6: "rows df6 = keep_first fst [] (rows df5)"
    using keep_first_mask[of "[]" fst "rows df5"]
    by (simp add: df6_def drop_duplicated_index_def boolean_index_def duplicated_def index_labels_def)
  have k21: "fst (h2 (h1 r)) = to_datetime pd (cell_of r ''timestamp'')" for r
    by (simp add: h2_def ts1)
  have r6': "rows df6 = map (\<lambda>r. h2 (h1 r)) (survivors pd df)"
    by (simp add: r6 r5 keep_first_map k21 survivors_def r1)
  have out': "out = add_consumption_flag (fillna_column ''grid_feedin'' (fillna_column ''grid_purchase'' df6))"
    by (simp add: out df6_def df5_def df4_def)
  have r8: "rows out = map (\<lambda>r. h3 (h2 (h1 r))) (survivors pd df)"
    unfolding out' add_consumption_flag_def fillna_column_def rows_assign_column
    by (simp add: r6' comp_def h3_def Let_def)
  have "h3 (h2 (h1 r)) = clean_row pn pd r" for r
    by (simp add: h3_def h2_def h1_def clean_row_def Let_def)
  with r8 show "rows out = map (clean_row pn pd) (survivors pd df)" by simp
  from req have cols: "''timestamp'' \<in> set (columns df)" "''grid_purchase'' \<in> set (columns df)"
    "''grid_feedin'' \<in> set (columns df)" "''direct_consumption'' \<in> set (columns df)"
    by (simp_all add: required_columns_def)
  have c6: "columns df6 = filter (\<lambda>n. n \<noteq> ''timestamp'') (filter (\<lambda>n. n \<noteq> ''date'') (columns df))"
    using cols
    by (simp add: df6_def df5_def df4_def drop_duplicated_index_def parse_timestamp_def assign_column_def
        boolean_index_def set_index_def dropna_def drop_column_def k(2) c1)
  show "columns out =
           (let cs = filter (\<lambda>n. n \<noteq> ''timestamp'') (filter (\<lambda>n. n \<noteq> ''date'') (columns df))
            in if ''direct_consumption_flag'' \<in> set cs then cs else cs @ [''direct_consumption_flag''])"
    using cols
    by (simp add: out' add_consumption_flag_def fillna_column_def assign_column_def c6 Let_def)
  show "index_name out = Some ''timestamp''"
    by (simp add: out' add_consumption_flag_def fillna_column_def df6_def df5_def
        drop_duplicated_index_def assign_column_def boolean_index_def set_index_def)
  from k(4) show "\<forall>r \<in> set (rows df). cell_of r ''direct_consumption'' \<noteq> Str ''Dev test'' \<longrightarrow>
           (\<forall>c \<in> {''grid_purchase'', ''grid_feedin'', ''direct_consumption''}.
              astype_int (fillna0 (to_numeric pn (cell_of r c))) = Inr (cast pn (cell_of r c)))"
    by (auto simp: r1)
qed

lemma fst_clean_row: "fst (clean_row pn pd r) = to_datetime pd (cell_of r ''timestamp'')"
  by (simp add: clean_row_def Let_def fst_set_cell cell_of_set_cell cell_of_delete cell_of_coerce_cell)

lemma fillna_cell_Integer: "fillna_cell (Num (Integer i)) = Num (Integer i)"
  by (simp add: fillna_cell_def is_null_def)

lemma cell_of_clean_row_metric:
  "c \<in> {''grid_purchase'', ''grid_feedin'', ''direct_consumption''} \<Longrightarrow>
     cell_of (clean_row pn pd r) c = Num (Integer (cast pn (cell_of r c)))"
  by (auto simp: clean_row_def Let_def cell_of_set_cell cell_of_delete cell_of_coerce_cell
      fillna_cell_Integer)


lemma cell_of_clean_row_other:
  "c \<notin> {''timestamp'', ''date'', ''grid_purchase'', ''grid_feedin'', ''direct_consumption'',
         ''direct_consumption_flag''} \<Longrightarrow>
     cell_of (clean_row pn pd r) c = cell_of r c"
  by (simp add: clean_row_def Let_def cell_of_set_cell cell_of_delete cell_of_coerce_cell)

lemma to_datetime_eq_Timestamp: "to_datetime pd v = Timestamp t \<longleftrightarrow> pd v = Some t"
  by (simp add: to_datetime_def split: option.splits)

lemma survivors_at:
  "filter (\<lambda>r. to_datetime pd (cell_of r ''timestamp'') = Timestamp t) (survivors pd df) =
     (case find (\<lambda>q. cell_of q ''direct_consumption'' \<noteq> Str ''Dev test'' \<and>
                      pd (cell_of q ''timestamp'') = Some t) (rows df) of
        None \<Rightarrow> [] | Some r \<Rightarrow> [r])"
proof -
  have p: "(\<lambda>x. cell_of x ''direct_consumption'' \<noteq> Str ''Dev test'' \<and>
             pd (cell_of x ''timestamp'') \<noteq> None \<and>
             to_datetime pd (cell_of x ''timestamp'') = Timestamp t) =
        (\<lambda>q. cell_of q ''direct_consumption'' \<noteq> Str ''Dev test'' \<and> pd (cell_of q ''timestamp'') = Some t)"
    by (auto simp: to_datetime_eq_Timestamp)
  have "filter (\<lambda>r. to_datetime pd (cell_of r ''timestamp'') = Timestamp t) (survivors pd df) =
     (case find (\<lambda>x. to_datetime pd (cell_of x ''timestamp'') = Timestamp t)
         (filter (\<lambda>r. pd (cell_of r ''timestamp'') \<noteq> None)
          (filter (\<lambda>r. cell_of r ''direct_consumption'' \<noteq> Str ''Dev test'') (rows df))) of
        None \<Rightarrow> [] | Some r \<Rightarrow> [r])"
    unfolding survivors_def filter_keep_first by simp
  also have "find (\<lambda>x. to_datetime pd (cell_of x ''timestamp'') = Timestamp t)
         (filter (\<lambda>r. pd (cell_of r ''timestamp'') \<noteq> None)
          (filter (\<lambda>r. cell_of r ''direct_consumption'' \<noteq> Str ''Dev test'') (rows df))) =
       find (\<lambda>q. cell_of q ''direct_consumption'' \<noteq> Str ''Dev test'' \<and>
                      pd (cell_of q ''timestamp'') = Some t) (rows df)"
    unfolding find_filter p ..
  finally show ?thesis .
qed

lemma survivors_subset:
  "r \<in> set (survivors pd df) \<Longrightarrow> pd (cell_of r ''timestamp'') \<noteq> None"
  using set_keep_first[of "\<lambda>r. to_datetime pd (cell_of r ''timestamp'')" "[]"
      "filter (\<lambda>r. pd (cell_of r ''timestamp'') \<noteq> None)
          (filter (\<lambda>r. cell_of r ''direct_consumption'' \<noteq> Str ''Dev test'') (rows df))"]
  by (auto simp: survivors_def)

lemma survivors_source:
  assumes "r \<in> set (survivors pd df)"
  obtains t where
    "find (\<lambda>q. cell_of q ''direct_consumption'' \<noteq> Str ''Dev test'' \<and>
                pd (cell_of q ''timestamp'') = Some t) (rows df) = Some r"
    and "pd (cell_of r ''timestamp'') = Some t"
proof -
  from survivors_subset[OF assms] obtain t where t: "pd (cell_of r ''timestamp'') = Some t" by auto
  with assms have "r \<in> set (filter (\<lambda>r. to_datetime pd (cell_of r ''timestamp'') = Timestamp t)
      (survivors pd df))"
    by (simp add: to_datetime_eq_Timestamp)
  then have "find (\<lambda>q. cell_of q ''direct_consumption'' \<noteq> Str ''Dev test'' \<and>
                pd (cell_of q ''timestamp'') = Some t) (rows df) = Some r"
    unfolding survivors_at by (auto split: option.splits)
  with t that show thesis by blast
qed


subsection \<open>The end-to-end example\<close>

text \<open>
  C1, as stated: on the three example rows \<^verbatim>\<open>clean\<close> returns one row at 01:00:00 with
  \<^verbatim>\<open>grid_purchase = 50\<close>. The code does not: the grid purchase column of the result
  is not the single value 50.
\<close>

theorem c1_grid_purchase_is_not_50:
  "column (get_cleaned_dataset integer_literal iso_datetime c1_raw) ''grid_purchase''
     \<noteq> [Num (Integer 50)]"
  by code_simp

text \<open>
  C1, amended: on the three example rows \<^verbatim>\<open>clean\<close> returns exactly one row, at
  2024-01-01 01:00:00, with \<^verbatim>\<open>grid_purchase = 0\<close>, \<^verbatim>\<open>grid_feedin = 30\<close>,
  \<^verbatim>\<open>direct_consumption = 10\<close> and \<^verbatim>\<open>direct_consumption_flag = true\<close>. The Dev test row
  is dropped, and of the two rows at 01:00:00 the first one is kept, whose unparseable
  grid purchase was set to 0.
\<close>

theorem c1_example_keeps_first_row:
  "get_cleaned_dataset integer_literal iso_datetime c1_raw =
     \<lparr>index_name = Some ''timestamp'',
      columns = [''grid_purchase'', ''grid_feedin'', ''direct_consumption'',
                 ''direct_consumption_flag''],
      rows = [(Timestamp \<lparr>year = 2024, month = 1, day = 1, hour = 1, minute = 0, second = 0,
                           nanosecond = 0\<rparr>,
               [(''grid_purchase'', Num (Integer 0)), (''grid_feedin'', Num (Integer 30)),
                (''direct_consumption'', Num (Integer 10)),
                (''direct_consumption_flag'', Bool True)])]\<rparr>"
  by code_simp
subsection \<open>The metric columns after cleaning\<close>




subsection \<open>Duplicate timestamps\<close>




subsection \<open>Columns the cleaner does not know\<close>

text \<open>
  C10, as stated: every input column other than the four required ones and \<^verbatim>\<open>date\<close>
  reaches the output unchanged. An input column named \<^verbatim>\<open>direct_consumption_flag\<close> does
  not: task 7 overwrites it.
\<close>

theorem input_flag_column_is_overwritten:
  "column (with_column ''direct_consumption_flag'' (Str ''no'')) ''direct_consumption_flag''
     = [Str ''no''] \<and>
   column (get_cleaned_dataset integer_literal iso_datetime
             (with_column ''direct_consumption_flag'' (Str ''no''))) ''direct_consumption_flag''
     = [Bool True]"
  by code_simp

text \<open>
  C10, amended: for every raw table that \<^verbatim>\<open>clean\<close> accepts and on which the cleaning
  steps complete, every input column other than \<^verbatim>\<open>timestamp\<close>, \<^verbatim>\<open>grid_purchase\<close>,
  \<^verbatim>\<open>grid_feedin\<close>, \<^verbatim>\<open>direct_consumption\<close>, \<^verbatim>\<open>date\<close> and \<^verbatim>\<open>direct_consumption_flag\<close>
  is a column of the output, and every output row has in it the value of the input row it
  comes from.
\<close>

theorem other_columns_are_preserved:
  assumes "get_cleaned_dataset_try pn pd df = Inr out"
    and "\<not> df_empty df"
    and "list_all (\<lambda>col. col \<in> set (columns df)) required_columns"
    and "c \<in> set (columns df)"
    and "c \<notin> {''timestamp'', ''grid_purchase'', ''grid_feedin'', ''direct_consumption'', ''date'',
               ''direct_consumption_flag''}"
  shows "c \<in> set (columns out) \<and>
         (\<forall>r' \<in> set (rows out).
            \<exists>r t. find (\<lambda>q. cell_of q ''direct_consumption'' \<noteq> Str ''Dev test'' \<and>
                             pd (cell_of q ''timestamp'') = Some t) (rows df) = Some r \<and>
                  fst r' = Timestamp t \<and> cell_of r' c = cell_of r c)"
proof -
  note cs = clean_success[OF assms(1-3)]
  from assms(4,5) have "c \<in> set (columns out)"
    unfolding cs(2) by (auto simp: Let_def)
  moreover have "\<exists>r t. find (\<lambda>q. cell_of q ''direct_consumption'' \<noteq> Str ''Dev test'' \<and>
                             pd (cell_of q ''timestamp'') = Some t) (rows df) = Some r \<and>
                  fst r' = Timestamp t \<and> cell_of r' c = cell_of r c"
    if "r' \<in> set (rows out)" for r'
  proof -
    from that cs(1) obtain r where r: "r \<in> set (survivors pd df)" and r': "r' = clean_row pn pd r"
      by auto
    from survivors_source[OF r] obtain t where
      f: "find (\<lambda>q. cell_of q ''direct_consumption'' \<noteq> Str ''Dev test'' \<and>
                pd (cell_of q ''timestamp'') = Some t) (rows df) = Some r"
      and t: "pd (cell_of r ''timestamp'') = Some t" by blast
    have "fst r' = Timestamp t"
      by (simp add: r' fst_clean_row to_datetime_eq_Timestamp t)
    moreover from assms(5) have "cell_of r' c = cell_of r c"
      unfolding r' by (intro cell_of_clean_row_other) simp
    ultimately show ?thesis using f by blast
  qed
  ultimately show ?thesis by blast
qed

theorem other_columns_are_preserved_witness:
  "get_cleaned_dataset_try integer_literal iso_datetime (with_column ''site'' (Str ''A''))
     = Inr (with_column_cleaned ''site'' (Str ''A'')) \<and>
   \<not> df_empty (with_column ''site'' (Str ''A'')) \<and>
   list_all (\<lambda>col. col \<in> set (columns (with_column ''site'' (Str ''A'')))) required_columns \<and>
   ''site'' \<in> set (columns (with_column ''site'' (Str ''A''))) \<and>
   ''site'' \<notin> {''timestamp'', ''grid_purchase'', ''grid_feedin'', ''direct_consumption'', ''date'',
                ''direct_consumption_flag''} \<and>
   ''site'' \<in> set (columns (with_column_cleaned ''site'' (Str ''A'')))"
proof -
  have h1: "get_cleaned_dataset_try integer_literal iso_datetime (with_column ''site'' (Str ''A''))
     = Inr (with_column_cleaned ''site'' (Str ''A''))"
    by code_simp
  have h2: "\<not> df_empty (with_column ''site'' (Str ''A''))" by code_simp
  have h3: "list_all (\<lambda>col. col \<in> set (columns (with_column ''site'' (Str ''A'')))) required_columns"
    by code_simp
  have h4: "''site'' \<in> set (columns (with_column ''site'' (Str ''A'')))" by code_simp
  have h5: "''site'' \<notin> {''timestamp'', ''grid_purchase'', ''grid_feedin'', ''direct_consumption'',
                ''date'', ''direct_consumption_flag''}"
    by simp
  from other_columns_are_preserved[OF h1 h2 h3 h4 h5]
  have "''site'' \<in> set (columns (with_column_cleaned ''site'' (Str ''A'')))" by blast
  with h1 h2 h3 h4 h5 show ?thesis by blast
qed

subsection \<open>Cleaning a cleaned table\<close>

text \<open>
  C2, as stated: \<^verbatim>\<open>clean\<close> returns an already cleaned table unchanged. For one clean
  reading the output of \<^verbatim>\<open>clean\<close> is a table indexed by timestamp; cleaning that output
  again does not return it, and the clean reading itself, given as a raw table, is not
  returned unchanged either.
\<close>

theorem clean_is_not_idempotent:
  "get_cleaned_dataset integer_literal iso_datetime c2_raw = c2_cleaned \<and>
   get_cleaned_dataset integer_literal iso_datetime c2_cleaned \<noteq> c2_cleaned \<and>
   get_cleaned_dataset integer_literal iso_datetime c2_raw \<noteq> c2_raw"
  by code_simp

text \<open>
  C2, amended: when \<^verbatim>\<open>clean\<close> completes and its output is empty, cleaning the output
  again returns it unchanged; when the output is not empty, cleaning it again returns the
  empty table \<^verbatim>\<open>DataFrame()\<close>, because \<^verbatim>\<open>timestamp\<close> is then the index and no longer
  one of the columns the second run requires.
\<close>

theorem clean_of_cleaned:
  assumes "get_cleaned_dataset_try pn pd df = Inr out"
  shows "get_cleaned_dataset pn pd out = (if df_empty out then out else DataFrame)"
proof (cases "df_empty out")
  case True
  then show ?thesis by (simp add: clean_empty)
next
  case False
  with assms have ne: "\<not> df_empty df"
    by (auto simp: get_cleaned_dataset_try_def)
  from False assms ne have req: "list_all (\<lambda>col. col \<in> set (columns df)) required_columns"
    by (auto simp: get_cleaned_dataset_try_def df_empty_DataFrame split: if_splits)
  note cs = clean_success[OF assms ne req]
  have "''timestamp'' \<notin> set (columns out)"
    unfolding cs(2) by (simp add: Let_def)
  then have "\<not> list_all (\<lambda>col. col \<in> set (columns out)) required_columns"
    by (simp add: required_columns_def)
  with False show ?thesis
    by (simp add: get_cleaned_dataset_def get_cleaned_dataset_try_def)
qed

theorem clean_of_cleaned_witness:
  "get_cleaned_dataset_try integer_literal iso_datetime c2_raw = Inr c2_cleaned \<and>
   \<not> df_empty c2_cleaned \<and>
   get_cleaned_dataset integer_literal iso_datetime c2_cleaned = DataFrame"
proof -
  have h1: "get_cleaned_dataset_try integer_literal iso_datetime c2_raw = Inr c2_cleaned"
    by code_simp
  have h2: "\<not> df_empty c2_cleaned" by code_simp
  from clean_of_cleaned[OF h1] h2
  have "get_cleaned_dataset integer_literal iso_datetime c2_cleaned = DataFrame" by simp
  with h1 h2 show ?thesis by blast
qed

subsection \<open>What the handlers return\<close>

text \<open>
  C3: when an exception is raised partway, the stage returns its input as it stood before
  the stage changed anything. The code returns the variable \<^verbatim>\<open>df\<close>, which the body has
  rebound or changed by then. In \<^verbatim>\<open>get_cleaned_dataset\<close> the cast of an infinite grid
  purchase raises after the Dev test rows were removed, and the table returned is the
  input without its Dev test row. In \<^verbatim>\<open>add_hour_metrics\<close> the join raises on a table
  that has the total columns already, after the \<^verbatim>\<open>hour\<close> column was assigned, and the
  table returned has that column. Neither is the input.
\<close>

theorem handler_returns_changed_table:
  "get_cleaned_dataset_try integer_literal iso_datetime c3_raw
     = Inl (IntCastingNaNError, c3_filtered) \<and>
   get_cleaned_dataset integer_literal iso_datetime c3_raw = c3_filtered \<and>
   c3_filtered \<noteq> c3_raw \<and>
   add_hour_metrics_try c3_enriched = Inl (ValueError, c3_enriched_with_hour) \<and>
   add_hour_metrics c3_enriched = c3_enriched_with_hour \<and>
   c3_enriched_with_hour \<noteq> c3_enriched"
  by code_simp

subsection \<open>The loader's failures\<close>

text \<open>
  C5, as stated: when the file does not exist, \<^verbatim>\<open>load\<close> reports a warning-level event.
  The code calls \<^verbatim>\<open>logger.error\<close>: the one record written has level ERROR, and no
  record has level WARNING.
\<close>

theorem missing_file_is_logged_as_error:
  "fst (load_dataset (\<lambda>name sep. Inl FileNotFoundError) ''measurements_coding_challenge.csv'' '';'')
     = DataFrame \<and>
   map levelname
     (snd (load_dataset (\<lambda>name sep. Inl FileNotFoundError) ''measurements_coding_challenge.csv'' '';''))
     = [ERROR] \<and>
   WARNING \<notin> set (map levelname
     (snd (load_dataset (\<lambda>name sep. Inl FileNotFoundError) ''measurements_coding_challenge.csv'' '';'')))"
  by (simp add: load_dataset_def)

text \<open>
  C5, amended: \<^verbatim>\<open>load\<close> never propagates an exception to its caller (the function of
  the model is total: whatever the reader does, a table and the log records come back).
  When the reader raises, the table returned is the empty table \<^verbatim>\<open>DataFrame()\<close> and
  exactly one record is written, at level ERROR: for a file that does not exist the
  message names the file and carries no traceback; for any other failure the record
  carries the traceback of the exception.
\<close>

theorem load_failure_returns_empty_table_and_error_record:
  assumes "read_csv filename delimiter = Inl e"
  shows "load_dataset read_csv filename delimiter =
           (DataFrame,
            [\<lparr>levelname = ERROR,
              msg = (if e = FileNotFoundError then ''File not found: %s''
                     else ''An error occurred while loading dataset''),
              args = (if e = FileNotFoundError then [ArgStr filename] else []),
              exc_info = (e \<noteq> FileNotFoundError)\<rparr>]) \<and>
         df_empty (fst (load_dataset read_csv filename delimiter))"
  using assms by (cases e) (simp_all add: load_dataset_def df_empty_DataFrame)

theorem load_failure_returns_empty_table_and_error_record_witness:
  "(\<lambda>name sep. Inl ParserError :: error + dataframe) ''measurements_coding_challenge.csv'' '';''
     = Inl ParserError \<and>
   load_dataset (\<lambda>name sep. Inl ParserError) ''measurements_coding_challenge.csv'' '';'' =
     (DataFrame,
      [\<lparr>levelname = ERROR, msg = ''An error occurred while loading dataset'', args = [],
        exc_info = True\<rparr>])"
proof -
  have h: "(\<lambda>name sep. Inl ParserError :: error + dataframe) ''measurements_coding_challenge.csv'' '';''
     = Inl ParserError" by simp
  from load_failure_returns_empty_table_and_error_record[OF h] h show ?thesis by simp
qed

subsection \<open>What a successful run of the aggregator returns\<close>






lemma wf_keys: "well_formed df \<Longrightarrow> r \<in> set (rows df) \<Longrightarrow> map fst (snd r) = columns df"
  by (simp add: well_formed_def list_all_iff)


lemma set_cell_hour_other:
  "c \<noteq> ''hour'' \<Longrightarrow> cell_of (set_cell ''hour'' v r) c = cell_of r c"
  by (simp add: cell_of_set_cell)
















subsection \<open>The cleaner's output is a table for the aggregator\<close>

text \<open>A completed run of the cleaner on a well-formed raw table without total columns
  returns a table of the kind the results on the aggregator are about: well formed,
  labelled by timestamps, with integer metric cells and without total columns.\<close>

lemma removeAll_as_filter: "removeAll k xs = filter (\<lambda>n. n \<noteq> k) xs"
  by (induction xs) auto

lemma keys_clean_row:
  assumes "map fst (snd r) = cols"
    and "list_all (\<lambda>c. c \<in> set cols) required_columns"
  shows "map fst (snd (clean_row pn pd r)) =
           (let cs = filter (\<lambda>n. n \<noteq> ''timestamp'') (filter (\<lambda>n. n \<noteq> ''date'') cols)
            in if ''direct_consumption_flag'' \<in> set cs then cs else cs @ [''direct_consumption_flag''])"
proof -
  from assms(2) have m: "''timestamp'' \<in> set cols" "''grid_purchase'' \<in> set cols"
    "''grid_feedin'' \<in> set cols" "''direct_consumption'' \<in> set cols"
    by (simp_all add: required_columns_def)
  have k: "map fst (snd (set_cell c v q)) =
      (if c \<in> set (map fst (snd q)) then map fst (snd q) else map fst (snd q) @ [c])" for c v and q :: row
    by (simp add: set_cell_def update_keys)
  show ?thesis
    using m assms(1)
    by (simp add: clean_row_def Let_def coerce_cell_def k delete_keys removeAll_as_filter
        del: set_map)
qed

lemma cleaner_output_fits_aggregator:
  assumes ok: "get_cleaned_dataset_try pn pd df = Inr out"
    and ne: "\<not> df_empty df"
    and req: "list_all (\<lambda>col. col \<in> set (columns df)) required_columns"
    and wf: "well_formed df"
    and fresh: "''grid_purchase_total'' \<notin> set (columns df)" "''grid_feedin_total'' \<notin> set (columns df)"
  shows "well_formed out \<and> list_all is_timestamp (index_labels out) \<and>
         integer_columns [''grid_purchase'', ''grid_feedin''] out \<and>
         ''grid_purchase_total'' \<notin> set (columns out) \<and> ''grid_feedin_total'' \<notin> set (columns out)"
proof -
  note cs = clean_success[OF ok ne req]
  have sub: "r \<in> set (rows df)" if "r \<in> set (survivors pd df)" for r
    using that set_keep_first[of "\<lambda>r. to_datetime pd (cell_of r ''timestamp'')" "[]"
      "filter (\<lambda>r. pd (cell_of r ''timestamp'') \<noteq> None)
          (filter (\<lambda>r. cell_of r ''direct_consumption'' \<noteq> Str ''Dev test'') (rows df))"]
    by (auto simp: survivors_def)
  have d: "distinct (columns out)"
    using wf unfolding cs(2) by (simp add: well_formed_def Let_def)
  have keys: "map fst (snd (clean_row pn pd r)) = columns out" if "r \<in> set (survivors pd df)" for r
    unfolding cs(2) by (rule keys_clean_row[OF wf_keys[OF wf sub[OF that]] req])
  have w: "well_formed out"
    using d keys by (simp add: well_formed_def cs(1) list_all_iff)
  have t: "list_all is_timestamp (index_labels out)"
  proof -
    have "is_timestamp (fst (clean_row pn pd r))" if "r \<in> set (survivors pd df)" for r
      using survivors_subset[OF that] by (auto simp: fst_clean_row to_datetime_def)
    then show ?thesis by (simp add: index_labels_def cs(1) list_all_iff)
  qed
  have i: "integer_columns [''grid_purchase'', ''grid_feedin''] out"
    by (simp add: integer_columns_def column_def cs(1) list_all_iff cell_of_clean_row_metric)
  have f: "''grid_purchase_total'' \<notin> set (columns out) \<and> ''grid_feedin_total'' \<notin> set (columns out)"
    using fresh unfolding cs(2) by (simp add: Let_def)
  from w t i f show ?thesis by blast
qed

subsection \<open>Hourly totals\<close>




subsection \<open>Daily maxima\<close>




subsection \<open>The frame of the aggregator\<close>




end
